theory Spec2Isabelle
  imports Complex_Main
begin

section \<open>The yield refresh endpoint (pages/api/refreshYieldInstruction.ts)\<close>

text \<open>
  The repository is one request handler and two helper functions. The handler talks to
  a blockchain node, to a metadata server and to the HTTP framework; none of them is
  part of the repository. Their answers are gathered in a record \<open>env\<close>, one field per
  external call, so that every run of the handler is a function of the request and of
  what the outside world answered. A call that raises is an answer \<open>None\<close>.
  Logging (\<open>console.log\<close>) is not modelled.
\<close>

subsection \<open>Data\<close>

text \<open>An account address; \<open>toString\<close> is its base58 text.\<close>

datatype PublicKey = PublicKey (toString: string)

text \<open>
  What the HTTP client hands back as \<open>data\<close>: any JSON value (a string when the body was
  not JSON). Nothing in the source validates it. An object is the list of its properties;
  in a parsed value the property names are distinct.
\<close>

datatype json =
    JNull
  | JBool bool
  | JNumber rat
  | JString string
  | JArray "json list"
  | JObject "(string \<times> json) list"

text \<open>
  The declared type of that document (\<open>MetadataJson\<close> of the metadata library, with
  \<open>attributes?: MetadataJsonAttribute[]\<close>): one entry of the \<open>attributes\<close> array.
\<close>

record MetadataJsonAttribute =
  trait_type :: string
  attr_value :: string

text \<open>The document at its declared type; only \<open>attributes\<close> (optional) is read.\<close>

record MetadataJson =
  attributes :: "MetadataJsonAttribute list option"

text \<open>The on-chain metadata; only \<open>data.uri\<close> is read.\<close>

record MetadataData =
  uri :: string

text \<open>The type \<open>NFT\<close> as declared (lines 27-31).\<close>

record NFT =
  nft_mint :: PublicKey
  onchainMetadata :: MetadataData
  externalMetadata :: MetadataJson

text \<open>The object \<open>getNFTMetadata\<close> builds at run time: the document is what was fetched.\<close>

record fetchedNFT =
  raw_mint :: PublicKey
  raw_onchainMetadata :: MetadataData
  raw_externalMetadata :: json

text \<open>The two on-chain accounts: \<open>{pubkey, parsed}\<close> with the parsed fields used.\<close>

record RewardDistributorData =
  rd_pubkey :: PublicKey
  multiplierDecimals :: nat

record RewardEntryData =
  re_pubkey :: PublicKey
  multiplier :: int

text \<open>
  Whatever is thrown: a library call that raised (named), a thrown string, or the
  \<open>TypeError\<close> of reading a property of \<open>null\<close> or calling what is not a function.
\<close>

datatype exception = Raised string | ThrownString string | TypeError

datatype instruction =
    InitRewardEntry (init_stakeEntryId: PublicKey) (init_rewardDistributor: PublicKey)
      (init_rewardEntryId: PublicKey)
  | UpdateRewardEntry (upd_stakePoolId: PublicKey) (upd_rewardDistributorId: PublicKey)
      (upd_stakeEntryId: PublicKey) (upd_multiplier: int)

type_synonym Transaction = "instruction list"

text \<open>
  The request: its HTTP verb and the three fields read from the body. The body is taken
  to be an object; each of the fields may be missing.
\<close>

record request_body =
  body_mint :: "string option"
  body_userPubkey :: "string option"
  body_stakePoolKey :: "string option"

record request =
  req_method :: string
  req_body :: request_body

text \<open>One call \<open>res.status(c).send({message, type, yieldRate})\<close>.\<close>

record response =
  status :: nat
  message :: string
  rtype :: "string option"
  yieldRate :: "int option"

text \<open>
  The outside world. \<open>getRewardDistributor\<close> and \<open>getRewardEntry\<close> stand for the calls
  wrapped in \<open>tryGetAccount\<close>, which turns a failed lookup into \<open>null\<close>.
\<close>

record env =
  PublicKey_new :: "string option \<Rightarrow> PublicKey option"
  Connection_new :: bool
  Keypair_fromSecretKey :: "PublicKey option"
  findRewardDistributorId :: "PublicKey \<Rightarrow> PublicKey option"
  getRewardDistributor :: "PublicKey \<Rightarrow> RewardDistributorData option"
  Metadata_getPDA :: "string \<Rightarrow> PublicKey option"
  Metadata_load :: "PublicKey \<Rightarrow> MetadataData option"
  axios_get :: "string \<Rightarrow> json option"
  findStakeEntryIdFromMint :: "PublicKey \<Rightarrow> PublicKey \<Rightarrow> PublicKey \<Rightarrow> PublicKey option"
  findRewardEntryId :: "PublicKey \<Rightarrow> PublicKey \<Rightarrow> PublicKey option"
  getRewardEntry :: "PublicKey \<Rightarrow> RewardEntryData option"
  executeTransaction :: "Transaction \<Rightarrow> bool"

text \<open>
  What a run of the handler leaves behind: the calls \<open>res.status(c).send(b)\<close> it made, in
  order; the transaction it handed to \<open>executeTransaction\<close>, if any (also when that call
  then raised); and how the handler ended. A \<open>send\<close> is recorded and returns: what the
  framework does with a second \<open>send\<close> on one response is not in the source. A POST
  request leads to at most one \<open>send\<close>.
\<close>

datatype outcome = Returned | Threw exception

record run =
  sent :: "response list"
  executed :: "Transaction option"
  outcome :: outcome

subsection \<open>JavaScript helpers\<close>

text \<open>\<open>xs[0]\<close>: the first element, \<open>undefined\<close> on an empty array.\<close>

definition at0 :: "'a list \<Rightarrow> 'a option" where
  "at0 xs = (case xs of [] \<Rightarrow> None | x # _ \<Rightarrow> Some x)"

text \<open>
  Reading one of the properties the source reads (\<open>attributes\<close>, \<open>trait_type\<close>, \<open>value\<close>):
  an object gives its property or \<open>undefined\<close>; a string, number, boolean or array has
  none of these three and gives \<open>undefined\<close>. \<open>x.p\<close> raises on \<open>null\<close>; \<open>x?.p\<close> gives
  \<open>undefined\<close> on \<open>null\<close> and \<open>undefined\<close>.
\<close>

definition propOf :: "json \<Rightarrow> string \<Rightarrow> json option" where
  "propOf x p = (case x of JObject kvs \<Rightarrow> map_of kvs p | _ \<Rightarrow> None)"

definition getProp :: "json \<Rightarrow> string \<Rightarrow> exception + json option" where
  "getProp x p = (case x of JNull \<Rightarrow> Inl TypeError | _ \<Rightarrow> Inr (propOf x p))"

definition optProp :: "json option \<Rightarrow> string \<Rightarrow> json option" where
  "optProp x p = (case x of None \<Rightarrow> None | Some v \<Rightarrow> propOf v p)"

text \<open>Truthiness of a JSON value.\<close>

definition truthy :: "json \<Rightarrow> bool" where
  "truthy x =
     (case x of JNull \<Rightarrow> False | JBool b \<Rightarrow> b | JNumber n \<Rightarrow> n \<noteq> 0
      | JString s \<Rightarrow> s \<noteq> [] | JArray xs \<Rightarrow> True | JObject kvs \<Rightarrow> True)"

text \<open>
  \<open>${n}\<close> in a template string, for an integer \<open>n\<close>: its decimal digits, most
  significant first, after a minus sign if it is negative.
\<close>

definition digitChar :: "nat \<Rightarrow> char" where
  "digitChar k = char_of (of_char (CHR ''0'') + k)"

fun decimalDigits :: "nat \<Rightarrow> string \<Rightarrow> string" where
  "decimalDigits n acc =
     (if n div 10 = 0 then digitChar n # acc
      else decimalDigits (n div 10) (digitChar (n mod 10) # acc))"

declare decimalDigits.simps [simp del]

definition Number_toString :: "int \<Rightarrow> string" where
  "Number_toString i =
     (if 0 \<le> i then decimalDigits (nat i) [] else CHR ''-'' # decimalDigits (nat (- i)) [])"

text \<open>
  bn.js: \<open>toNumber\<close> raises on a value of more than 53 bits, and \<open>new BN(n)\<close> asserts
  \<open>n < 2^53\<close> for a number \<open>n\<close>. JavaScript numbers are modelled exactly, as integers and
  rationals. Behind these two guards the doubles agree with the exact values: a product
  \<open>yield * 10 ^ d\<close> below \<open>2^53\<close> is computed exactly, and for a stored multiplier
  below \<open>2^53\<close> the rounded quotient \<open>stored / 10 ^ d\<close> equals that product only when the
  exact quotient does.
\<close>

definition BN_toNumber :: "int \<Rightarrow> exception + int" where
  "BN_toNumber b = (if \<bar>b\<bar> < 2 ^ 53 then Inr b else Inl (Raised ''BN.toNumber''))"

definition BN_new :: "int \<Rightarrow> exception + int" where
  "BN_new n = (if \<bar>n\<bar> < 2 ^ 53 then Inr n else Inl (Raised ''BN''))"

subsection \<open>getNFTMetadata (lines 186-203)\<close>

text \<open>The body of the \<open>try\<close> block.\<close>

definition getNFTMetadata_try :: "env \<Rightarrow> string \<Rightarrow> exception + fetchedNFT" where
  "getNFTMetadata_try e mint =
     (case Metadata_getPDA e mint of
        None \<Rightarrow> Inl (Raised ''Metadata.getPDA'')
      | Some metadataPDA \<Rightarrow>
     (case Metadata_load e metadataPDA of
        None \<Rightarrow> Inl (Raised ''Metadata.load'')
      | Some onchain \<Rightarrow>
     (case axios_get e (uri onchain) of
        None \<Rightarrow> Inl (Raised ''axios.get'')
      | Some ext \<Rightarrow>
     (case PublicKey_new e (Some mint) of
        None \<Rightarrow> Inl (Raised ''PublicKey'')
      | Some pk \<Rightarrow>
          Inr \<lparr>raw_mint = pk, raw_onchainMetadata = onchain,
               raw_externalMetadata = ext\<rparr>))))"

text \<open>The \<open>catch\<close> only logs and falls off the end of the function: \<open>undefined\<close>.\<close>

definition getNFTMetadata :: "env \<Rightarrow> string \<Rightarrow> exception + fetchedNFT option" where
  "getNFTMetadata e mint =
     (case getNFTMetadata_try e mint of
        Inr nft \<Rightarrow> Inr (Some nft)
      | Inl err \<Rightarrow> Inr None)"

subsection \<open>computeExpectedYield (lines 143-183)\<close>

definition legendarySkins :: "string list" where
  "legendarySkins =
     [''Abstract Colors'', ''Bat'', ''Crystal'', ''Demon'', ''Dragon'', ''Gold'', ''Lava'']"

text \<open>
  \<open>atts.filter(att => att.trait_type === t)\<close> on an array: the callback reads
  \<open>att.trait_type\<close> of every element, which raises on a \<open>null\<close> element.
\<close>

fun filterTrait :: "string \<Rightarrow> json list \<Rightarrow> exception + json list" where
  "filterTrait t [] = Inr []"
| "filterTrait t (att # atts) =
     (case getProp att ''trait_type'' of
        Inl err \<Rightarrow> Inl err
      | Inr v \<Rightarrow>
          (case filterTrait t atts of
             Inl err \<Rightarrow> Inl err
           | Inr rest \<Rightarrow> Inr (if v = Some (JString t) then att # rest else rest)))"

text \<open>
  \<open>attributes?.filter(...)\<close>: \<open>undefined\<close> when \<open>attributes\<close> is \<open>undefined\<close> or \<open>null\<close>;
  the filtered array when it is an array; otherwise \<open>filter\<close> is not a function of the
  value and the call raises.
\<close>

definition filterByTrait :: "json option \<Rightarrow> string \<Rightarrow> exception + json list option" where
  "filterByTrait attrs t =
     (case attrs of
        None \<Rightarrow> Inr None
      | Some JNull \<Rightarrow> Inr None
      | Some (JArray atts) \<Rightarrow>
          (case filterTrait t atts of Inl err \<Rightarrow> Inl err | Inr xs \<Rightarrow> Inr (Some xs))
      | Some other \<Rightarrow> Inl TypeError)"

text \<open>
  Lines 148-182, a function of what \<open>getNFTMetadata\<close> returned. \<open>includes\<close> and \<open>===\<close>
  against string literals hold for that very string only.
\<close>

definition yieldOfFetched :: "fetchedNFT option \<Rightarrow> exception + int" where
  "yieldOfFetched nft =
     (case (case nft of None \<Rightarrow> Inr None
            | Some n \<Rightarrow> getProp (raw_externalMetadata n) ''attributes'') of
        Inl err \<Rightarrow> Inl err
      | Inr attrs \<Rightarrow>
     (let hay0 = 2 in
     (case filterByTrait attrs ''Skin'' of
        Inl err \<Rightarrow> Inl err
      | Inr skins \<Rightarrow>
     (let skin = (case skins of None \<Rightarrow> None | Some xs \<Rightarrow> at0 xs);
          hay1 = (if (case optProp skin ''value'' of None \<Rightarrow> False
                      | Some v \<Rightarrow> truthy v \<and> List.member (map JString legendarySkins) v)
                  then hay0 + 2 else hay0)
      in
     (case filterByTrait attrs ''Badge'' of
        Inl err \<Rightarrow> Inl err
      | Inr badge \<Rightarrow>
     (let hay2 = (case badge of None \<Rightarrow> hay1
                  | Some b \<Rightarrow>
                      if length b > 0 then
                        (let v = optProp (at0 b) ''value'' in
                         if v = Some (JString ''Bronze'') then hay1 + 5
                         else if v = Some (JString ''Silver'') then hay1 + 7
                         else if v = Some (JString ''Gold'') then hay1 + 9
                         else if v = Some (JString ''Platinum'') then hay1 + 11
                         else if v = Some (JString ''Diamond'') then hay1 + 15
                         else hay1)
                      else hay1)
      in
     (case filterByTrait attrs ''Vignette'' of
        Inl err \<Rightarrow> Inl err
      | Inr imposters \<Rightarrow>
     (let imposter = (case imposters of None \<Rightarrow> None | Some xs \<Rightarrow> at0 xs);
          hay3 = (if (case imposter of None \<Rightarrow> False
                      | Some i \<Rightarrow> truthy i \<and> propOf i ''value'' = Some (JString ''Alpaca''))
                  then hay2 + 5 else hay2)
      in Inr hay3))))))))"

text \<open>
  The same lines read at the declared type \<open>NFT | undefined\<close>, where no property access
  can raise: \<open>x?.f\<close> is a case on the option, \<open>skin?.value && ...\<close> needs a truthy
  (non-empty) string.
\<close>

definition hayYield :: "NFT option \<Rightarrow> int" where
  "hayYield nft =
     (let attrs = (case nft of None \<Rightarrow> None | Some n \<Rightarrow> attributes (externalMetadata n));
          hay0 = 2;
          skin = (case attrs of None \<Rightarrow> None
                  | Some as \<Rightarrow> at0 (filter (\<lambda>att. trait_type att = ''Skin'') as));
          hay1 = (if (case skin of None \<Rightarrow> False
                      | Some s \<Rightarrow> attr_value s \<noteq> [] \<and> List.member legendarySkins (attr_value s))
                  then hay0 + 2 else hay0);
          badge = (case attrs of None \<Rightarrow> None
                   | Some as \<Rightarrow> Some (filter (\<lambda>att. trait_type att = ''Badge'') as));
          hay2 = (case badge of None \<Rightarrow> hay1
                  | Some b \<Rightarrow>
                      if length b > 0 then
                        (let v = map_option attr_value (at0 b) in
                         if v = Some ''Bronze'' then hay1 + 5
                         else if v = Some ''Silver'' then hay1 + 7
                         else if v = Some ''Gold'' then hay1 + 9
                         else if v = Some ''Platinum'' then hay1 + 11
                         else if v = Some ''Diamond'' then hay1 + 15
                         else hay1)
                      else hay1);
          imposter = (case attrs of None \<Rightarrow> None
                      | Some as \<Rightarrow> at0 (filter (\<lambda>att. trait_type att = ''Vignette'') as));
          hay3 = (if (case imposter of None \<Rightarrow> False | Some i \<Rightarrow> attr_value i = ''Alpaca'')
                  then hay2 + 5 else hay2)
      in hay3)"

definition computeExpectedYield :: "env \<Rightarrow> PublicKey \<Rightarrow> exception + int" where
  "computeExpectedYield e mint =
     (case getNFTMetadata e (toString mint) of
        Inl err \<Rightarrow> Inl err
      | Inr nft \<Rightarrow> yieldOfFetched nft)"

text \<open>
  When a fetched document has the declared type: it is an object whose \<open>attributes\<close> is
  missing or an array of objects with a string \<open>trait_type\<close> and a string \<open>value\<close>.
  Other properties are of no concern here.
\<close>

definition decodeAttribute :: "json \<Rightarrow> MetadataJsonAttribute option" where
  "decodeAttribute x =
     (case (propOf x ''trait_type'', propOf x ''value'') of
        (Some (JString t), Some (JString v)) \<Rightarrow> Some \<lparr>trait_type = t, attr_value = v\<rparr>
      | _ \<Rightarrow> None)"

fun decodeAttributes :: "json list \<Rightarrow> MetadataJsonAttribute list option" where
  "decodeAttributes [] = Some []"
| "decodeAttributes (x # xs) =
     (case decodeAttribute x of
        None \<Rightarrow> None
      | Some a \<Rightarrow> (case decodeAttributes xs of None \<Rightarrow> None | Some as \<Rightarrow> Some (a # as)))"

definition decodeMetadata :: "json \<Rightarrow> MetadataJson option" where
  "decodeMetadata d =
     (case d of
        JObject kvs \<Rightarrow>
          (case map_of kvs ''attributes'' of
             None \<Rightarrow> Some \<lparr>attributes = None\<rparr>
           | Some (JArray xs) \<Rightarrow>
               (case decodeAttributes xs of
                  None \<Rightarrow> None
                | Some as \<Rightarrow> Some \<lparr>attributes = Some as\<rparr>)
           | Some other \<Rightarrow> None)
      | _ \<Rightarrow> None)"

definition decodeNFT :: "fetchedNFT \<Rightarrow> NFT option" where
  "decodeNFT r =
     (case decodeMetadata (raw_externalMetadata r) of
        None \<Rightarrow> None
      | Some m \<Rightarrow>
          Some \<lparr>nft_mint = raw_mint r, onchainMetadata = raw_onchainMetadata r,
                externalMetadata = m\<rparr>)"

text \<open>What \<open>getNFTMetadata\<close> returned has the declared type \<open>NFT | undefined\<close>.\<close>

definition declaredType :: "fetchedNFT option \<Rightarrow> bool" where
  "declaredType f = (case f of None \<Rightarrow> True | Some r \<Rightarrow> decodeNFT r \<noteq> None)"

definition typedNFT :: "fetchedNFT option \<Rightarrow> NFT option" where
  "typedNFT f = (case f of None \<Rightarrow> None | Some r \<Rightarrow> decodeNFT r)"

text \<open>
  The fetched documents on which lines 148-182 do not raise: not \<open>null\<close>, and with an
  \<open>attributes\<close> that is missing, \<open>null\<close>, or an array without a \<open>null\<close> entry.
\<close>

definition readable :: "fetchedNFT option \<Rightarrow> bool" where
  "readable f =
     (case f of
        None \<Rightarrow> True
      | Some r \<Rightarrow>
          (case raw_externalMetadata r of
             JNull \<Rightarrow> False
           | d \<Rightarrow>
               (case propOf d ''attributes'' of
                  None \<Rightarrow> True
                | Some JNull \<Rightarrow> True
                | Some (JArray xs) \<Rightarrow> JNull \<notin> set xs
                | Some other \<Rightarrow> False)))"

definition filterable :: "json option \<Rightarrow> bool" where
  "filterable a =
     (case a of None \<Rightarrow> True | Some JNull \<Rightarrow> True
      | Some (JArray xs) \<Rightarrow> JNull \<notin> set xs | Some other \<Rightarrow> False)"

subsection \<open>The handler (lines 38-140)\<close>

definition onlyPostResponse :: response where
  "onlyPostResponse =
     \<lparr>status = 405, message = ''Only POST requests allowed'', rtype = None, yieldRate = None\<rparr>"

definition ignoredResponse :: "int \<Rightarrow> response" where
  "ignoredResponse expectedYield =
     \<lparr>status = 200,
      message = ''Yield already set to '' @ Number_toString expectedYield @ '' $HAY/day'',
      rtype = Some ''ignored'', yieldRate = Some expectedYield\<rparr>"

definition okResponse :: "int \<Rightarrow> response" where
  "okResponse expectedYield =
     \<lparr>status = 200, message = ''Yield rate was successfully updated'',
      rtype = Some ''ok'', yieldRate = Some expectedYield\<rparr>"

definition errorResponse :: response where
  "errorResponse =
     \<lparr>status = 500, message = ''Yield refresh transaction could not be created'',
      rtype = Some ''error'', yieldRate = None\<rparr>"

text \<open>
  Modelled from the spec: \<open>withUpdateRewardEntry\<close> is a function of the staking library,
  which is not in the repository. The spec (4.1, step 5): it appends an "update reward
  entry" instruction with the expected multiplier to the transaction.
\<close>

definition withUpdateRewardEntry ::
  "Transaction \<Rightarrow> PublicKey \<Rightarrow> PublicKey \<Rightarrow> PublicKey \<Rightarrow> int \<Rightarrow> Transaction" where
  "withUpdateRewardEntry transaction stakePoolId rewardDistributorId stakeEntryId m =
     transaction @ [UpdateRewardEntry stakePoolId rewardDistributorId stakeEntryId m]"

text \<open>
  Lines 113-134: build the update, execute, answer. The result is what the \<open>try\<close> block
  ends with (a response sent, or an exception for the \<open>catch\<close>) and the transaction
  handed to \<open>executeTransaction\<close>.
\<close>

definition updateAndExecute ::
  "env \<Rightarrow> PublicKey \<Rightarrow> RewardDistributorData \<Rightarrow> PublicKey \<Rightarrow> int \<Rightarrow> int \<Rightarrow> Transaction
     \<Rightarrow> (exception + response) \<times> Transaction option" where
  "updateAndExecute e stakePoolKey rewardDistributor stakeEntryId expectedYield
       expectedMultiplier transaction =
     (case BN_new expectedMultiplier of
        Inl err \<Rightarrow> (Inl err, None)
      | Inr bn \<Rightarrow>
          (let transaction' = withUpdateRewardEntry transaction stakePoolKey
                 (rd_pubkey rewardDistributor) stakeEntryId bn
           in if executeTransaction e transaction'
              then (Inr (okResponse expectedYield), Some transaction')
              else (Inl (Raised ''executeTransaction''), Some transaction')))"

text \<open>Lines 55-134, the body of the \<open>try\<close> block.\<close>

definition tryBlock ::
  "env \<Rightarrow> PublicKey \<Rightarrow> PublicKey \<Rightarrow> PublicKey \<Rightarrow> (exception + response) \<times> Transaction option" where
  "tryBlock e mint userPubkey stakePoolKey =
     (case Keypair_fromSecretKey e of
        None \<Rightarrow> (Inl (Raised ''Keypair.fromSecretKey''), None)
      | Some wallet \<Rightarrow>
     (let transaction = [] in
     (case findRewardDistributorId e stakePoolKey of
        None \<Rightarrow> (Inl (Raised ''findRewardDistributorId''), None)
      | Some rewardDistributorId \<Rightarrow>
     (case getRewardDistributor e rewardDistributorId of
        None \<Rightarrow> (Inl (ThrownString ''Reward Distributor for pool not found''), None)
      | Some rewardDistributor \<Rightarrow>
     (case computeExpectedYield e mint of
        Inl err \<Rightarrow> (Inl err, None)
      | Inr expectedYield \<Rightarrow>
     (let expectedMultiplier = expectedYield * 10 ^ multiplierDecimals rewardDistributor in
     (case findStakeEntryIdFromMint e userPubkey stakePoolKey mint of
        None \<Rightarrow> (Inl (Raised ''findStakeEntryIdFromMint''), None)
      | Some stakeEntryId \<Rightarrow>
     (case findRewardEntryId e (rd_pubkey rewardDistributor) stakeEntryId of
        None \<Rightarrow> (Inl (Raised ''findRewardEntryId''), None)
      | Some rewardEntryId \<Rightarrow>
     (case getRewardEntry e rewardEntryId of
        None \<Rightarrow>
          updateAndExecute e stakePoolKey rewardDistributor stakeEntryId expectedYield
            expectedMultiplier
            (transaction @
               [InitRewardEntry stakeEntryId (rd_pubkey rewardDistributor) rewardEntryId])
      | Some rewardEntryData \<Rightarrow>
          (case BN_toNumber (multiplier rewardEntryData) of
             Inl err \<Rightarrow> (Inl err, None)
           | Inr n \<Rightarrow>
               (let currentMultiplier =
                      (of_int n :: rat) / 10 ^ multiplierDecimals rewardDistributor
                in if currentMultiplier = of_int expectedMultiplier
                   then (Inr (ignoredResponse expectedYield), None)
                   else updateAndExecute e stakePoolKey rewardDistributor stakeEntryId
                          expectedYield expectedMultiplier transaction)))))))))))"

text \<open>
  The handler. The 405 is sent and the function goes on (there is no \<open>return\<close> at
  line 41). The three addresses and the connection are made before the \<open>try\<close>: an
  exception there leaves the handler. Inside the \<open>try\<close>, an exception is answered by
  the \<open>catch\<close> with the 500 response.
\<close>

definition handler :: "env \<Rightarrow> request \<Rightarrow> run" where
  "handler e req =
     (let sent0 = (if req_method req \<noteq> ''POST'' then [onlyPostResponse] else []);
          body = req_body req
      in
     (case PublicKey_new e (body_mint body) of
        None \<Rightarrow> \<lparr>sent = sent0, executed = None, outcome = Threw (Raised ''PublicKey'')\<rparr>
      | Some mint \<Rightarrow>
     (case PublicKey_new e (body_userPubkey body) of
        None \<Rightarrow> \<lparr>sent = sent0, executed = None, outcome = Threw (Raised ''PublicKey'')\<rparr>
      | Some userPubkey \<Rightarrow>
     (case PublicKey_new e (body_stakePoolKey body) of
        None \<Rightarrow> \<lparr>sent = sent0, executed = None, outcome = Threw (Raised ''PublicKey'')\<rparr>
      | Some stakePoolKey \<Rightarrow>
          if \<not> Connection_new e
          then \<lparr>sent = sent0, executed = None, outcome = Threw (Raised ''Connection'')\<rparr>
          else
            (case tryBlock e mint userPubkey stakePoolKey of
               (Inr resp, ex) \<Rightarrow> \<lparr>sent = sent0 @ [resp], executed = ex, outcome = Returned\<rparr>
             | (Inl err, ex) \<Rightarrow>
                 \<lparr>sent = sent0 @ [errorResponse], executed = ex, outcome = Returned\<rparr>)))))"

subsection \<open>The yield rule in the words of the specification\<close>

text \<open>
  Section 4.2: base rate 2; +2 if the "Skin" trait's value is a legendary skin; the
  badge tier bonus by the "Badge" trait's value; +5 if the "Vignette" trait's value is
  "Alpaca"; a trait that is not present adds nothing, absent metadata gives the base
  rate. "The" trait is the first attribute of that type in the list.
\<close>

definition firstTrait :: "string \<Rightarrow> MetadataJsonAttribute list \<Rightarrow> string option" where
  "firstTrait t as = map_option attr_value (find (\<lambda>att. trait_type att = t) as)"

definition skinBonus :: "string option \<Rightarrow> int" where
  "skinBonus v =
     (if v \<in> Some ` {''Abstract Colors'', ''Bat'', ''Crystal'', ''Demon'', ''Dragon'',
                     ''Gold'', ''Lava''} then 2 else 0)"

definition badgeBonus :: "string option \<Rightarrow> int" where
  "badgeBonus v =
     (if v = Some ''Bronze'' then 5
      else if v = Some ''Silver'' then 7
      else if v = Some ''Gold'' then 9
      else if v = Some ''Platinum'' then 11
      else if v = Some ''Diamond'' then 15
      else 0)"

definition vignetteBonus :: "string option \<Rightarrow> int" where
  "vignetteBonus v = (if v = Some ''Alpaca'' then 5 else 0)"

definition specYield :: "MetadataJsonAttribute list \<Rightarrow> int" where
  "specYield as =
     2 + skinBonus (firstTrait ''Skin'' as) + badgeBonus (firstTrait ''Badge'' as)
       + vignetteBonus (firstTrait ''Vignette'' as)"

text \<open>Absent metadata and a document without \<open>attributes\<close> are read as no attributes.\<close>

definition attributesOf :: "NFT option \<Rightarrow> MetadataJsonAttribute list" where
  "attributesOf nft =
     (case nft of None \<Rightarrow> []
      | Some n \<Rightarrow> (case attributes (externalMetadata n) of None \<Rightarrow> [] | Some as \<Rightarrow> as))"

subsection \<open>A sample world\<close>

text \<open>
  One outside world in which every call answers, used to run the handler on concrete
  requests: the metadata server answers \<open>meta\<close> (or fails), the distributor has \<open>d\<close>
  decimals, and the reward entry holds \<open>stored\<close> (or does not exist). Address strings of
  32 to 44 characters are accepted, standing in for base58 decoding to 32 bytes.
\<close>

definition sampleEnv :: "json option \<Rightarrow> nat \<Rightarrow> int option \<Rightarrow> env" where
  "sampleEnv meta d stored =
     \<lparr>PublicKey_new = (\<lambda>s. case s of None \<Rightarrow> None
          | Some t \<Rightarrow> if 32 \<le> length t \<and> length t \<le> 44 then Some (PublicKey t) else None),
      Connection_new = True,
      Keypair_fromSecretKey = Some (PublicKey ''AdminWallet''),
      findRewardDistributorId = (\<lambda>pool. Some (PublicKey ''RewardDistributorPDA'')),
      getRewardDistributor = (\<lambda>i. Some \<lparr>rd_pubkey = i, multiplierDecimals = d\<rparr>),
      Metadata_getPDA = (\<lambda>m. Some (PublicKey ''MetadataPDA'')),
      Metadata_load = (\<lambda>p. Some \<lparr>uri = ''https://example.org/1.json''\<rparr>),
      axios_get = (\<lambda>u. meta),
      findStakeEntryIdFromMint = (\<lambda>u p m. Some (PublicKey ''StakeEntryPDA'')),
      findRewardEntryId = (\<lambda>r s. Some (PublicKey ''RewardEntryPDA'')),
      getRewardEntry = (\<lambda>i. map_option (\<lambda>m. \<lparr>re_pubkey = i, multiplier = m\<rparr>) stored),
      executeTransaction = (\<lambda>tx. True)\<rparr>"

definition sampleMetadata :: json where
  "sampleMetadata =
     JObject [(''name'', JString ''Alien 1''),
              (''attributes'', JArray
                 [JObject [(''trait_type'', JString ''Skin''), (''value'', JString ''Gold'')],
                  JObject [(''trait_type'', JString ''Badge''),
                           (''value'', JString ''Platinum'')]])]"

definition mintAddress :: string where
  "mintAddress = ''So11111111111111111111111111111111111111112''"

definition userAddress :: string where
  "userAddress = ''Vote111111111111111111111111111111111111111''"

definition poolAddress :: string where
  "poolAddress = ''Stake11111111111111111111111111111111111111''"

definition sampleRequest :: "string \<Rightarrow> string option \<Rightarrow> request" where
  "sampleRequest verb mintField =
     \<lparr>req_method = verb,
      req_body = \<lparr>body_mint = mintField, body_userPubkey = Some userAddress,
                  body_stakePoolKey = Some poolAddress\<rparr>\<rparr>"

section \<open>Properties\<close>

lemma at0_filter: "at0 (filter P xs) = find P xs"
  by (induction xs) (auto simp: at0_def)

lemma skinBonus_Some:
  "skinBonus (Some v) = (if v \<noteq> [] \<and> List.member legendarySkins v then 2 else 0)"
  by (auto simp add: skinBonus_def legendarySkins_def)

lemma skinBonus_None: "skinBonus None = 0"
  by (simp add: skinBonus_def)

lemma badge_chain:
  "(if v = Some ''Bronze'' then h + 5
    else if v = Some ''Silver'' then h + 7
    else if v = Some ''Gold'' then h + 9
    else if v = Some ''Platinum'' then h + 11
    else if v = Some ''Diamond'' then h + 15
    else h) = h + badgeBonus v"
  by (simp add: badgeBonus_def)

lemma badgeBonus_None: "badgeBonus None = 0"
  by (simp add: badgeBonus_def)

lemma vignetteBonus_None: "vignetteBonus None = 0"
  by (simp add: vignetteBonus_def)

lemma vignetteBonus_Some: "vignetteBonus (Some v) = (if v = ''Alpaca'' then 5 else 0)"
  by (simp add: vignetteBonus_def)

lemma filter_empty_find: "filter P xs = [] \<Longrightarrow> find P xs = None"
  by (induction xs) (auto split: if_splits)

lemma skin_part:
  "(if (case at0 (filter P as) of None \<Rightarrow> False
        | Some s \<Rightarrow> attr_value s \<noteq> [] \<and> List.member legendarySkins (attr_value s))
    then h + 2 else h) = h + skinBonus (map_option attr_value (find P as))"
  by (cases "find P as") (simp_all add: at0_filter skinBonus_Some skinBonus_None)

lemma badge_part:
  "(if length (filter P as) > 0 then h + badgeBonus (map_option attr_value (at0 (filter P as)))
    else h) = h + badgeBonus (map_option attr_value (find P as))"
  by (cases "filter P as = []") (simp_all add: at0_filter filter_empty_find badgeBonus_None)

lemma vignette_part:
  "(if (case at0 (filter P as) of None \<Rightarrow> False | Some i \<Rightarrow> attr_value i = ''Alpaca'')
    then h + 5 else h) = h + vignetteBonus (map_option attr_value (find P as))"
  by (cases "find P as") (simp_all add: at0_filter vignetteBonus_Some vignetteBonus_None)

lemma hayYield_Some_attrs:
  assumes "attributes (externalMetadata n) = Some as"
  shows "hayYield (Some n) = specYield as"
  by (simp only: hayYield_def Let_def badge_chain option.case assms skin_part badge_part
      vignette_part specYield_def firstTrait_def)

lemma hayYield_Some_none:
  "attributes (externalMetadata n) = None \<Longrightarrow> hayYield (Some n) = 2"
  by (simp add: hayYield_def)

lemma hayYield_None: "hayYield None = 2"
  by (simp add: hayYield_def)

lemma specYield_Nil: "specYield [] = 2"
  by (simp add: specYield_def firstTrait_def skinBonus_None badgeBonus_None vignetteBonus_None)

lemma hayYield_specYield: "hayYield nft = specYield (attributesOf nft)"
proof (cases nft)
  case None
  then show ?thesis by (simp add: hayYield_None attributesOf_def specYield_Nil)
next
  case (Some n)
  show ?thesis
  proof (cases "attributes (externalMetadata n)")
    case None
    with Some show ?thesis
      by (simp add: hayYield_Some_none attributesOf_def specYield_Nil)
  next
    case (Some as)
    with \<open>nft = Some n\<close> show ?thesis
      by (simp add: hayYield_Some_attrs attributesOf_def)
  qed
qed

subsection \<open>Fetched documents of the declared type\<close>

lemma decodeAttribute_props:
  assumes "decodeAttribute x = Some a"
  shows "getProp x ''trait_type'' = Inr (Some (JString (trait_type a)))"
    and "propOf x ''value'' = Some (JString (attr_value a))"
    and "truthy x"
  using assms
  by (cases x; auto simp add: decodeAttribute_def propOf_def getProp_def truthy_def
      split: option.splits json.splits)+

lemma filterTrait_decoded:
  "decodeAttributes xs = Some as \<Longrightarrow>
     \<exists>ys. filterTrait t xs = Inr ys
        \<and> decodeAttributes ys = Some (filter (\<lambda>a. trait_type a = t) as)"
proof (induction xs arbitrary: as)
  case Nil
  then show ?case by simp
next
  case (Cons x xs)
  from Cons.prems obtain a as' where a: "decodeAttribute x = Some a"
    and as': "decodeAttributes xs = Some as'" and as: "as = a # as'"
    by (auto split: option.splits)
  from Cons.IH [OF as'] obtain ys where ys: "filterTrait t xs = Inr ys"
    and dys: "decodeAttributes ys = Some (filter (\<lambda>a. trait_type a = t) as')"
    by blast
  show ?case
    using a ys dys as by (simp add: decodeAttribute_props(1) [OF a])
qed

lemma skin_fetched:
  assumes "decodeAttributes ys = Some bs"
  shows "(if (case optProp (at0 ys) ''value'' of None \<Rightarrow> False
              | Some v \<Rightarrow> truthy v \<and> List.member (map JString legendarySkins) v)
          then h + 2 else h) = h + skinBonus (map_option attr_value (at0 bs))"
proof (cases ys)
  case Nil
  with assms show ?thesis by (simp add: at0_def optProp_def skinBonus_None)
next
  case (Cons y ys')
  with assms obtain b bs' where b: "decodeAttribute y = Some b" and bs: "bs = b # bs'"
    by (auto split: option.splits)
  have inj: "(JString (attr_value b) \<in> JString ` set legendarySkins)
               = (attr_value b \<in> set legendarySkins)"
    by auto
  show ?thesis
    using Cons bs decodeAttribute_props(2) [OF b] inj
    by (simp add: at0_def optProp_def skinBonus_Some truthy_def)
qed

lemma badge_fetched:
  assumes "decodeAttributes ys = Some bs"
  shows "(if length ys > 0 then
            (if optProp (at0 ys) ''value'' = Some (JString ''Bronze'') then h + 5
             else if optProp (at0 ys) ''value'' = Some (JString ''Silver'') then h + 7
             else if optProp (at0 ys) ''value'' = Some (JString ''Gold'') then h + 9
             else if optProp (at0 ys) ''value'' = Some (JString ''Platinum'') then h + 11
             else if optProp (at0 ys) ''value'' = Some (JString ''Diamond'') then h + 15
             else h)
          else h) = h + badgeBonus (map_option attr_value (at0 bs))"
proof (cases ys)
  case Nil
  with assms show ?thesis by (simp add: at0_def badgeBonus_None)
next
  case (Cons y ys')
  with assms obtain b bs' where b: "decodeAttribute y = Some b" and bs: "bs = b # bs'"
    by (auto split: option.splits)
  show ?thesis
    using Cons bs decodeAttribute_props(2) [OF b]
    by (simp add: at0_def optProp_def badgeBonus_def)
qed

lemma vignette_fetched:
  assumes "decodeAttributes ys = Some bs"
  shows "(if (case at0 ys of None \<Rightarrow> False
              | Some i \<Rightarrow> truthy i \<and> propOf i ''value'' = Some (JString ''Alpaca''))
          then h + 5 else h) = h + vignetteBonus (map_option attr_value (at0 bs))"
proof (cases ys)
  case Nil
  with assms show ?thesis by (simp add: at0_def vignetteBonus_None)
next
  case (Cons y ys')
  with assms obtain b bs' where b: "decodeAttribute y = Some b" and bs: "bs = b # bs'"
    by (auto split: option.splits)
  show ?thesis
    using Cons bs decodeAttribute_props(2,3) [OF b]
    by (simp add: at0_def vignetteBonus_Some)
qed

lemma yieldOfFetched_None: "yieldOfFetched None = Inr 2"
  by (simp add: yieldOfFetched_def filterByTrait_def optProp_def)

lemma yieldOfFetched_no_attributes:
  assumes "raw_externalMetadata r = JObject kvs" and "map_of kvs ''attributes'' = None"
  shows "yieldOfFetched (Some r) = Inr 2"
  using assms
  by (simp add: yieldOfFetched_def getProp_def propOf_def filterByTrait_def optProp_def)

lemma yieldOfFetched_attributes:
  assumes r: "raw_externalMetadata r = JObject kvs"
    and kvs: "map_of kvs ''attributes'' = Some (JArray xs)"
    and xs: "decodeAttributes xs = Some as"
  shows "yieldOfFetched (Some r) = Inr (specYield as)"
proof -
  obtain ys1 where f1: "filterTrait ''Skin'' xs = Inr ys1"
    and d1: "decodeAttributes ys1 = Some (filter (\<lambda>a. trait_type a = ''Skin'') as)"
    using filterTrait_decoded [OF xs] by blast
  obtain ys2 where f2: "filterTrait ''Badge'' xs = Inr ys2"
    and d2: "decodeAttributes ys2 = Some (filter (\<lambda>a. trait_type a = ''Badge'') as)"
    using filterTrait_decoded [OF xs] by blast
  obtain ys3 where f3: "filterTrait ''Vignette'' xs = Inr ys3"
    and d3: "decodeAttributes ys3 = Some (filter (\<lambda>a. trait_type a = ''Vignette'') as)"
    using filterTrait_decoded [OF xs] by blast
  have a: "getProp (raw_externalMetadata r) ''attributes'' = Inr (Some (JArray xs))"
    using r kvs by (simp add: getProp_def propOf_def)
  have g: "filterByTrait (Some (JArray xs)) ''Skin'' = Inr (Some ys1)"
    "filterByTrait (Some (JArray xs)) ''Badge'' = Inr (Some ys2)"
    "filterByTrait (Some (JArray xs)) ''Vignette'' = Inr (Some ys3)"
    using f1 f2 f3 by (simp_all add: filterByTrait_def)
  show ?thesis
    by (simp only: yieldOfFetched_def Let_def option.case sum.case a g
        skin_fetched [OF d1] badge_fetched [OF d2] vignette_fetched [OF d3]
        specYield_def firstTrait_def at0_filter)
qed

lemma yieldOfFetched_decoded:
  assumes "decodeNFT r = Some n"
  shows "yieldOfFetched (Some r) = Inr (hayYield (Some n))"
proof -
  from assms obtain m where m: "decodeMetadata (raw_externalMetadata r) = Some m"
    and n: "externalMetadata n = m"
    by (auto simp add: decodeNFT_def split: option.splits)
  from m obtain kvs where r: "raw_externalMetadata r = JObject kvs"
    by (auto simp add: decodeMetadata_def split: json.splits)
  show ?thesis
  proof (cases "attributes m")
    case None
    with m r have "map_of kvs ''attributes'' = None"
      by (auto simp add: decodeMetadata_def split: option.splits json.splits)
    from yieldOfFetched_no_attributes [OF r this] None n show ?thesis
      by (simp add: hayYield_Some_none)
  next
    case (Some as)
    with m r obtain xs where kvs: "map_of kvs ''attributes'' = Some (JArray xs)"
      and xs: "decodeAttributes xs = Some as"
      by (auto simp add: decodeMetadata_def split: option.splits json.splits)
    from yieldOfFetched_attributes [OF r kvs xs] Some n show ?thesis
      by (simp add: hayYield_Some_attrs)
  qed
qed

lemma yieldOfFetched_bounds:
  "yieldOfFetched nft = Inr y \<Longrightarrow> 2 \<le> y \<and> y \<le> 24"
  unfolding yieldOfFetched_def Let_def
  by (auto split: sum.splits option.splits if_splits)


lemma filterTrait_cases:
  "(JNull \<notin> set xs \<and> (\<exists>ys. filterTrait t xs = Inr ys))
   \<or> (JNull \<in> set xs \<and> filterTrait t xs = Inl TypeError)"
proof (induction xs)
  case Nil
  then show ?case by simp
next
  case (Cons x xs)
  then show ?case
    by (cases x) (auto simp add: getProp_def)
qed

lemma filterByTrait_cases:
  "(filterable a \<and> (\<exists>ys. filterByTrait a t = Inr ys))
   \<or> (\<not> filterable a \<and> filterByTrait a t = Inl TypeError)"
proof (cases a)
  case None
  then show ?thesis by (simp add: filterable_def filterByTrait_def)
next
  case (Some d)
  show ?thesis
  proof (cases d)
    case (JArray xs)
    with Some filterTrait_cases [of xs t] show ?thesis
      by (auto simp add: filterable_def filterByTrait_def)
  qed (simp_all add: Some filterable_def filterByTrait_def)
qed

lemma yieldOfFetched_attrs:
  assumes "(case f of None \<Rightarrow> Inr None
            | Some n \<Rightarrow> getProp (raw_externalMetadata n) ''attributes'') = Inr a"
  shows "(filterable a \<and> (\<exists>y. yieldOfFetched f = Inr y))
         \<or> (\<not> filterable a \<and> yieldOfFetched f = Inl TypeError)"
proof (cases "filterable a")
  case True
  obtain s1 where s1: "filterByTrait a ''Skin'' = Inr s1"
    using filterByTrait_cases [of a "''Skin''"] True by blast
  obtain s2 where s2: "filterByTrait a ''Badge'' = Inr s2"
    using filterByTrait_cases [of a "''Badge''"] True by blast
  obtain s3 where s3: "filterByTrait a ''Vignette'' = Inr s3"
    using filterByTrait_cases [of a "''Vignette''"] True by blast
  have "\<exists>y. yieldOfFetched f = Inr y"
    unfolding yieldOfFetched_def Let_def assms
    by (simp only: sum.case s1 s2 s3) blast
  with True show ?thesis by simp
next
  case False
  then have "filterByTrait a ''Skin'' = Inl TypeError"
    using filterByTrait_cases [of a "''Skin''"] by blast
  then have "yieldOfFetched f = Inl TypeError"
    unfolding yieldOfFetched_def Let_def assms by simp
  with False show ?thesis by simp
qed

lemma yieldOfFetched_cases:
  "(readable f \<and> (\<exists>y. yieldOfFetched f = Inr y))
   \<or> (\<not> readable f \<and> yieldOfFetched f = Inl TypeError)"
proof (cases f)
  case None
  then show ?thesis by (simp add: readable_def yieldOfFetched_None)
next
  case (Some r)
  show ?thesis
  proof (cases "raw_externalMetadata r = JNull")
    case True
    with Some show ?thesis
      by (simp add: readable_def yieldOfFetched_def getProp_def)
  next
    case False
    then have g: "(case f of None \<Rightarrow> Inr None
            | Some n \<Rightarrow> getProp (raw_externalMetadata n) ''attributes'')
          = Inr (propOf (raw_externalMetadata r) ''attributes'')"
      using Some by (simp add: getProp_def split: json.splits)
    have "readable f = filterable (propOf (raw_externalMetadata r) ''attributes'')"
      using Some False by (simp add: readable_def filterable_def split: json.splits)
    with yieldOfFetched_attrs [OF g] show ?thesis by simp
  qed
qed


lemma yieldOfFetched_typed:
  "declaredType f \<Longrightarrow> yieldOfFetched f = Inr (hayYield (typedNFT f))"
proof (cases f)
  case None
  then show ?thesis by (simp add: typedNFT_def yieldOfFetched_None hayYield_None)
next
  case (Some r)
  assume "declaredType f"
  with Some obtain n where n: "decodeNFT r = Some n"
    by (auto simp add: declaredType_def)
  from yieldOfFetched_decoded [OF n] Some n show ?thesis
    by (simp add: typedNFT_def)
qed

lemma getNFTMetadata_Inr: "\<exists>nft. getNFTMetadata e m = Inr nft"
  by (simp add: getNFTMetadata_def split: sum.splits)

lemma computeExpectedYield_Inr:
  "getNFTMetadata e (toString mint) = Inr f \<Longrightarrow> computeExpectedYield e mint = yieldOfFetched f"
  by (simp add: computeExpectedYield_def)

lemma computeExpectedYield_typed:
  "getNFTMetadata e (toString mint) = Inr f \<Longrightarrow> declaredType f \<Longrightarrow>
     computeExpectedYield e mint = Inr (hayYield (typedNFT f))"
  by (simp add: computeExpectedYield_Inr yieldOfFetched_typed)

lemma computeExpectedYield_cases:
  "getNFTMetadata e (toString mint) = Inr f \<Longrightarrow>
     (readable f \<and> (\<exists>y. computeExpectedYield e mint = Inr y))
     \<or> (\<not> readable f \<and> computeExpectedYield e mint = Inl TypeError)"
  using yieldOfFetched_cases [of f] by (simp add: computeExpectedYield_Inr)

lemma computeExpectedYield_range:
  "computeExpectedYield e mint = Inr y \<Longrightarrow> 2 \<le> y \<and> y \<le> 24"
  using getNFTMetadata_Inr [of e "toString mint"]
  by (auto simp add: computeExpectedYield_Inr dest: yieldOfFetched_bounds)

subsection \<open>The sample world\<close>

lemmas sample_defs =
  sampleEnv_def sampleRequest_def mintAddress_def userAddress_def poolAddress_def
  computeExpectedYield_def getNFTMetadata_def getNFTMetadata_try_def yieldOfFetched_def
  filterByTrait_def getProp_def propOf_def optProp_def truthy_def
  sampleMetadata_def at0_def legendarySkins_def

lemma sample_fetch:
  "getNFTMetadata (sampleEnv (Some doc) d st) (toString (PublicKey mintAddress)) =
     Inr (Some \<lparr>raw_mint = PublicKey mintAddress,
                raw_onchainMetadata = \<lparr>uri = ''https://example.org/1.json''\<rparr>,
                raw_externalMetadata = doc\<rparr>)"
  by (simp add: getNFTMetadata_def getNFTMetadata_try_def sampleEnv_def mintAddress_def)

lemma sample_fetch_fails:
  "getNFTMetadata (sampleEnv None d st) (toString (PublicKey mintAddress)) = Inr None"
  by (simp add: getNFTMetadata_def getNFTMetadata_try_def sampleEnv_def)

lemma sample_declared:
  "decodeNFT \<lparr>raw_mint = pk, raw_onchainMetadata = oc, raw_externalMetadata = sampleMetadata\<rparr>
     = Some \<lparr>nft_mint = pk, onchainMetadata = oc,
        externalMetadata = \<lparr>attributes = Some
          [\<lparr>trait_type = ''Skin'', attr_value = ''Gold''\<rparr>,
           \<lparr>trait_type = ''Badge'', attr_value = ''Platinum''\<rparr>]\<rparr>\<rparr>"
  by (simp add: decodeNFT_def decodeMetadata_def decodeAttribute_def propOf_def
      sampleMetadata_def)

text \<open>
  C1. For every metadata input of the declared type, \<open>computeExpectedYield\<close> returns the
  yield of the specification's rule: 2, plus 2 if the value of the first "Skin" attribute is one of
  the seven legendary skins, plus the tier bonus of the first "Badge" attribute (Bronze
  5, Silver 7, Gold 9, Platinum 11, Diamond 15, anything else 0), plus 5 if the value of
  the first "Vignette" attribute is "Alpaca". Absent metadata, a document without
  attributes and the empty list give 2; Skin Gold with Badge Platinum gives 15.
\<close>

theorem computeExpectedYield_rule:
  "hayYield nft = specYield (attributesOf nft)
   \<and> (getNFTMetadata e (toString mint) = Inr f \<and> declaredType f \<longrightarrow>
        computeExpectedYield e mint = Inr (specYield (attributesOf (typedNFT f))))
   \<and> hayYield None = 2
   \<and> hayYield (Some \<lparr>nft_mint = pk, onchainMetadata = oc,
        externalMetadata = \<lparr>attributes = None\<rparr>\<rparr>) = 2
   \<and> hayYield (Some \<lparr>nft_mint = pk, onchainMetadata = oc,
        externalMetadata = \<lparr>attributes = Some []\<rparr>\<rparr>) = 2
   \<and> hayYield (Some \<lparr>nft_mint = pk, onchainMetadata = oc,
        externalMetadata = \<lparr>attributes = Some
          [\<lparr>trait_type = ''Skin'', attr_value = ''Gold''\<rparr>,
           \<lparr>trait_type = ''Badge'', attr_value = ''Platinum''\<rparr>]\<rparr>\<rparr>) = 15"
proof -
  have a: "hayYield nft = specYield (attributesOf nft)"
    by (rule hayYield_specYield)
  have b: "getNFTMetadata e (toString mint) = Inr f \<and> declaredType f \<longrightarrow>
        computeExpectedYield e mint = Inr (specYield (attributesOf (typedNFT f)))"
    by (simp add: computeExpectedYield_typed hayYield_specYield)
  have c: "hayYield None = 2"
    by (simp add: hayYield_def)
  have d: "hayYield (Some \<lparr>nft_mint = pk, onchainMetadata = oc,
        externalMetadata = \<lparr>attributes = None\<rparr>\<rparr>) = 2"
    by (simp add: hayYield_def)
  have e: "hayYield (Some \<lparr>nft_mint = pk, onchainMetadata = oc,
        externalMetadata = \<lparr>attributes = Some []\<rparr>\<rparr>) = 2"
    by (simp add: hayYield_def at0_def)
  have f: "hayYield (Some \<lparr>nft_mint = pk, onchainMetadata = oc,
        externalMetadata = \<lparr>attributes = Some
          [\<lparr>trait_type = ''Skin'', attr_value = ''Gold''\<rparr>,
           \<lparr>trait_type = ''Badge'', attr_value = ''Platinum''\<rparr>]\<rparr>\<rparr>) = 15"
    by (simp add: hayYield_def at0_def legendarySkins_def)
  show ?thesis by (intro conjI a b c d e f)
qed

text \<open>The sample document (Skin Gold, Badge Platinum) as fetched, and a failed fetch.\<close>

theorem computeExpectedYield_rule_witness:
  "computeExpectedYield (sampleEnv (Some sampleMetadata) 0 None) (PublicKey mintAddress) = Inr 15
   \<and> computeExpectedYield (sampleEnv None 0 None) (PublicKey mintAddress) = Inr 2"
proof -
  let ?f = "Some \<lparr>raw_mint = PublicKey mintAddress,
                raw_onchainMetadata = \<lparr>uri = ''https://example.org/1.json''\<rparr>,
                raw_externalMetadata = sampleMetadata\<rparr>"
  have d: "declaredType ?f"
    by (simp add: declaredType_def sample_declared)
  have s: "specYield (attributesOf (typedNFT ?f)) = 15"
    by (simp add: typedNFT_def sample_declared attributesOf_def specYield_def firstTrait_def
        skinBonus_def badgeBonus_def vignetteBonus_def)
  have d0: "declaredType None"
    by (simp add: declaredType_def)
  have s0: "specYield (attributesOf (typedNFT None)) = 2"
    by (simp add: typedNFT_def attributesOf_def specYield_Nil)
  have a: "computeExpectedYield (sampleEnv (Some sampleMetadata) 0 None) (PublicKey mintAddress)
             = Inr 15"
    using computeExpectedYield_rule
      [where e = "sampleEnv (Some sampleMetadata) 0 None" and mint = "PublicKey mintAddress"
         and f = ?f] sample_fetch d s
    by simp
  have b: "computeExpectedYield (sampleEnv None 0 None) (PublicKey mintAddress) = Inr 2"
    using computeExpectedYield_rule
      [where e = "sampleEnv None 0 None" and mint = "PublicKey mintAddress" and f = None]
      sample_fetch_fails d0 s0
    by simp
  show ?thesis using a b by simp
qed






lemma skinBonus_cases: "skinBonus v = 0 \<or> skinBonus v = 2"
  by (simp add: skinBonus_def)

lemma badgeBonus_cases:
  "badgeBonus v = 0 \<or> badgeBonus v = 5 \<or> badgeBonus v = 7 \<or> badgeBonus v = 9
     \<or> badgeBonus v = 11 \<or> badgeBonus v = 15"
  by (simp add: badgeBonus_def)

lemma vignetteBonus_cases: "vignetteBonus v = 0 \<or> vignetteBonus v = 5"
  by (simp add: vignetteBonus_def)

text \<open>
  C10. For every metadata input the yield is an integer from 2 to 24: the base 2 plus
  one skin bonus (0 or 2), one badge bonus (0, 5, 7, 9, 11 or 15) and one vignette bonus
  (0 or 5). Whatever \<open>computeExpectedYield\<close> returns lies within the same bounds, and on
  metadata of the declared type it does return.
\<close>

theorem computeExpectedYield_bounds:
  "2 \<le> hayYield nft \<and> hayYield nft \<le> 24
   \<and> (\<exists>s b v. hayYield nft = 2 + s + b + v
         \<and> (s = 0 \<or> s = 2)
         \<and> (b = 0 \<or> b = 5 \<or> b = 7 \<or> b = 9 \<or> b = 11 \<or> b = 15)
         \<and> (v = 0 \<or> v = 5))
   \<and> (computeExpectedYield e mint = Inr y \<longrightarrow> 2 \<le> y \<and> y \<le> 24)
   \<and> (getNFTMetadata e (toString mint) = Inr f \<and> declaredType f \<longrightarrow>
        (\<exists>y'. computeExpectedYield e mint = Inr y' \<and> 2 \<le> y' \<and> y' \<le> 24))"
proof -
  let ?as = "attributesOf nft"
  let ?s = "skinBonus (firstTrait ''Skin'' ?as)"
  let ?b = "badgeBonus (firstTrait ''Badge'' ?as)"
  let ?v = "vignetteBonus (firstTrait ''Vignette'' ?as)"
  have eq: "hayYield nft = 2 + ?s + ?b + ?v"
    by (simp add: hayYield_specYield specYield_def)
  have s: "?s = 0 \<or> ?s = 2" by (rule skinBonus_cases)
  have b: "?b = 0 \<or> ?b = 5 \<or> ?b = 7 \<or> ?b = 9 \<or> ?b = 11 \<or> ?b = 15"
    by (rule badgeBonus_cases)
  have v: "?v = 0 \<or> ?v = 5" by (rule vignetteBonus_cases)
  have lo: "2 \<le> hayYield nft" using eq s b v by linarith
  have hi: "hayYield nft \<le> 24" using eq s b v by linarith
  have rg: "computeExpectedYield e mint = Inr y \<longrightarrow> 2 \<le> y \<and> y \<le> 24"
    using computeExpectedYield_range by blast
  have ce: "getNFTMetadata e (toString mint) = Inr f \<and> declaredType f \<longrightarrow>
        (\<exists>y'. computeExpectedYield e mint = Inr y' \<and> 2 \<le> y' \<and> y' \<le> 24)"
  proof
    assume h: "getNFTMetadata e (toString mint) = Inr f \<and> declaredType f"
    then have "computeExpectedYield e mint = Inr (hayYield (typedNFT f))"
      by (simp add: computeExpectedYield_typed)
    then show "\<exists>y'. computeExpectedYield e mint = Inr y' \<and> 2 \<le> y' \<and> y' \<le> 24"
      using computeExpectedYield_range by blast
  qed
  have ex: "\<exists>s b v. hayYield nft = 2 + s + b + v
         \<and> (s = 0 \<or> s = 2)
         \<and> (b = 0 \<or> b = 5 \<or> b = 7 \<or> b = 9 \<or> b = 11 \<or> b = 15)
         \<and> (v = 0 \<or> v = 5)"
    by (intro exI conjI) (rule eq, rule s, rule b, rule v)
  show ?thesis by (intro conjI lo hi ex rg ce)
qed

text \<open>The sample document as fetched: the yield is 15.\<close>

theorem computeExpectedYield_bounds_witness:
  "(2 :: int) \<le> 15 \<and> (15 :: int) \<le> 24
   \<and> (\<exists>y'. computeExpectedYield (sampleEnv (Some sampleMetadata) 0 None)
              (PublicKey mintAddress) = Inr y' \<and> 2 \<le> y' \<and> y' \<le> 24)"
proof -
  let ?e = "sampleEnv (Some sampleMetadata) 0 None"
  let ?f = "Some \<lparr>raw_mint = PublicKey mintAddress,
                raw_onchainMetadata = \<lparr>uri = ''https://example.org/1.json''\<rparr>,
                raw_externalMetadata = sampleMetadata\<rparr>"
  have d: "declaredType ?f"
    by (simp add: declaredType_def sample_declared)
  have y: "computeExpectedYield ?e (PublicKey mintAddress) = Inr 15"
    by (simp add: sample_defs)
  show ?thesis
    using computeExpectedYield_bounds
      [where e = ?e and mint = "PublicKey mintAddress" and f = ?f and y = 15]
      sample_fetch d y
    by simp
qed



lemma getNFTMetadata_try_fails:
  "(\<exists>err. getNFTMetadata_try e m = Inl err) \<longleftrightarrow>
     (Metadata_getPDA e m = None
      \<or> (\<exists>pda. Metadata_getPDA e m = Some pda \<and> Metadata_load e pda = None)
      \<or> (\<exists>pda oc. Metadata_getPDA e m = Some pda \<and> Metadata_load e pda = Some oc
            \<and> axios_get e (uri oc) = None)
      \<or> (\<exists>pda oc ext. Metadata_getPDA e m = Some pda \<and> Metadata_load e pda = Some oc
            \<and> axios_get e (uri oc) = Some ext \<and> PublicKey_new e (Some m) = None))"
  by (auto simp add: getNFTMetadata_try_def split: option.splits)

text \<open>
  C7, as amended. \<open>getNFTMetadata\<close> never throws: it always returns, and when a step of
  its \<open>try\<close> block raises (no metadata account, the HTTP fetch failing, ...) it returns the
  absent result; \<open>computeExpectedYield\<close> then returns the base rate 2. A document that was
  fetched is handed on as it is. \<open>computeExpectedYield\<close> returns a value for it (its yield,
  when it has the declared type) unless the document is \<open>null\<close>, or its \<open>attributes\<close> is
  neither missing, \<open>null\<close> nor an array, or the array has a \<open>null\<close> entry; in these cases
  it raises a \<open>TypeError\<close>.
\<close>

theorem getNFTMetadata_never_throws:
  "(\<exists>r. getNFTMetadata e m = Inr r)
   \<and> (getNFTMetadata_try e (toString mint) = Inl err \<longrightarrow>
        getNFTMetadata e (toString mint) = Inr None \<and> computeExpectedYield e mint = Inr 2)
   \<and> (getNFTMetadata e (toString mint) = Inr f \<and> declaredType f \<longrightarrow>
        computeExpectedYield e mint = Inr (hayYield (typedNFT f)))
   \<and> (getNFTMetadata e (toString mint) = Inr f \<and> readable f \<longrightarrow>
        (\<exists>y. computeExpectedYield e mint = Inr y \<and> 2 \<le> y \<and> y \<le> 24))
   \<and> (getNFTMetadata e (toString mint) = Inr f \<and> \<not> readable f \<longrightarrow>
        computeExpectedYield e mint = Inl TypeError)"
proof -
  have a: "\<exists>r. getNFTMetadata e m = Inr r"
    by (rule getNFTMetadata_Inr)
  have b: "getNFTMetadata_try e (toString mint) = Inl err \<longrightarrow>
        getNFTMetadata e (toString mint) = Inr None \<and> computeExpectedYield e mint = Inr 2"
    by (simp add: getNFTMetadata_def computeExpectedYield_def yieldOfFetched_None)
  have c: "getNFTMetadata e (toString mint) = Inr f \<and> declaredType f \<longrightarrow>
        computeExpectedYield e mint = Inr (hayYield (typedNFT f))"
    by (simp add: computeExpectedYield_typed)
  have d: "getNFTMetadata e (toString mint) = Inr f \<and> readable f \<longrightarrow>
        (\<exists>y. computeExpectedYield e mint = Inr y \<and> 2 \<le> y \<and> y \<le> 24)"
    using computeExpectedYield_cases [of e mint f] computeExpectedYield_range [of e mint]
    by blast
  have x: "getNFTMetadata e (toString mint) = Inr f \<and> \<not> readable f \<longrightarrow>
        computeExpectedYield e mint = Inl TypeError"
    using computeExpectedYield_cases [of e mint f] by blast
  show ?thesis by (intro conjI a b c d x)
qed

text \<open>
  A fetch that fails; the sample document; and a document with numbers for values, which
  is not of the declared type and still read.
\<close>

theorem getNFTMetadata_never_throws_witness:
  "getNFTMetadata (sampleEnv None 0 None) mintAddress = Inr None
   \<and> computeExpectedYield (sampleEnv None 0 None) (PublicKey mintAddress) = Inr 2
   \<and> computeExpectedYield (sampleEnv (Some sampleMetadata) 0 None) (PublicKey mintAddress)
       = Inr 15
   \<and> (\<exists>y. computeExpectedYield
        (sampleEnv (Some (JObject [(''attributes'', JArray
           [JObject [(''trait_type'', JString ''Level''), (''value'', JNumber 5)]])])) 0 None)
        (PublicKey mintAddress) = Inr y \<and> 2 \<le> y \<and> y \<le> 24)
   \<and> computeExpectedYield
        (sampleEnv (Some (JObject [(''attributes'', JArray [JNull])])) 0 None)
        (PublicKey mintAddress) = Inl TypeError"
proof -
  let ?f = "Some \<lparr>raw_mint = PublicKey mintAddress,
                raw_onchainMetadata = \<lparr>uri = ''https://example.org/1.json''\<rparr>,
                raw_externalMetadata = sampleMetadata\<rparr>"
  let ?num = "JObject [(''attributes'', JArray
           [JObject [(''trait_type'', JString ''Level''), (''value'', JNumber 5)]])]"
  let ?g = "Some \<lparr>raw_mint = PublicKey mintAddress,
                raw_onchainMetadata = \<lparr>uri = ''https://example.org/1.json''\<rparr>,
                raw_externalMetadata = ?num\<rparr>"
  let ?bad = "JObject [(''attributes'', JArray [JNull])]"
  let ?h = "Some \<lparr>raw_mint = PublicKey mintAddress,
                raw_onchainMetadata = \<lparr>uri = ''https://example.org/1.json''\<rparr>,
                raw_externalMetadata = ?bad\<rparr>"
  have t: "getNFTMetadata_try (sampleEnv None 0 None) (toString (PublicKey mintAddress))
             = Inl (Raised ''axios.get'')"
    by (simp add: getNFTMetadata_try_def sampleEnv_def)
  have a: "getNFTMetadata (sampleEnv None 0 None) mintAddress = Inr None
     \<and> computeExpectedYield (sampleEnv None 0 None) (PublicKey mintAddress) = Inr 2"
    using getNFTMetadata_never_throws [where e = "sampleEnv None 0 None"
        and mint = "PublicKey mintAddress" and err = "Raised ''axios.get''"] t
    by simp
  have d: "declaredType ?f"
    by (simp add: declaredType_def sample_declared)
  have h: "hayYield (typedNFT ?f) = 15"
    by (simp add: typedNFT_def sample_declared hayYield_def at0_def legendarySkins_def)
  have b: "computeExpectedYield (sampleEnv (Some sampleMetadata) 0 None)
             (PublicKey mintAddress) = Inr 15"
    using getNFTMetadata_never_throws [where e = "sampleEnv (Some sampleMetadata) 0 None"
        and mint = "PublicKey mintAddress" and f = ?f] sample_fetch d h
    by simp
  have rg: "readable ?g"
    by (simp add: readable_def propOf_def)
  have c: "\<exists>y. computeExpectedYield (sampleEnv (Some ?num) 0 None) (PublicKey mintAddress)
             = Inr y \<and> 2 \<le> y \<and> y \<le> 24"
    using getNFTMetadata_never_throws [where e = "sampleEnv (Some ?num) 0 None"
        and mint = "PublicKey mintAddress" and f = ?g] sample_fetch rg
    by simp
  have rh: "\<not> readable ?h"
    by (simp add: readable_def propOf_def)
  have x: "computeExpectedYield (sampleEnv (Some ?bad) 0 None) (PublicKey mintAddress)
             = Inl TypeError"
    using getNFTMetadata_never_throws [where e = "sampleEnv (Some ?bad) 0 None"
        and mint = "PublicKey mintAddress" and f = ?h] sample_fetch rh
    by simp
  show ?thesis using a b c x by simp
qed

text \<open>
  C7 as stated fails on malformed data. When the server answers the JSON value \<open>null\<close>,
  nothing in \<open>getNFTMetadata\<close> raises: it returns a present result, \<open>computeExpectedYield\<close>
  raises a \<open>TypeError\<close> at line 148, and the request ends in the 500 response. An
  \<open>attributes\<close> property that is not an array raises at line 156.
\<close>

theorem null_document_aborts:
  "getNFTMetadata (sampleEnv (Some JNull) 0 None) mintAddress =
     Inr (Some \<lparr>raw_mint = PublicKey mintAddress,
                raw_onchainMetadata = \<lparr>uri = ''https://example.org/1.json''\<rparr>,
                raw_externalMetadata = JNull\<rparr>)
   \<and> computeExpectedYield (sampleEnv (Some JNull) 0 None) (PublicKey mintAddress)
       = Inl TypeError
   \<and> sent (handler (sampleEnv (Some JNull) 0 None) (sampleRequest ''POST'' (Some mintAddress)))
       = [errorResponse]
   \<and> executed (handler (sampleEnv (Some JNull) 0 None)
        (sampleRequest ''POST'' (Some mintAddress))) = None
   \<and> computeExpectedYield
        (sampleEnv (Some (JObject [(''attributes'', JString ''none'')])) 0 None)
        (PublicKey mintAddress) = Inl TypeError"
  by (simp add: handler_def tryBlock_def sample_defs)

text \<open>A POST request is answered by at most one \<open>send\<close>.\<close>

lemma handler_post_sends_once:
  "req_method req = ''POST'' \<Longrightarrow> length (sent (handler e req)) \<le> 1"
  by (simp add: handler_def Let_def split: option.splits prod.splits sum.splits)

text \<open>Any other request is processed as the same request sent by POST, after the 405.\<close>

lemma handler_other_verb:
  "req_method req \<noteq> ''POST'' \<Longrightarrow>
     handler e req =
       (handler e (req\<lparr>req_method := ''POST''\<rparr>))
         \<lparr>sent := onlyPostResponse # sent (handler e (req\<lparr>req_method := ''POST''\<rparr>))\<rparr>"
  by (simp add: handler_def Let_def split: option.splits prod.splits sum.splits)

lemma handler_parse_fails:
  assumes "PublicKey_new e (body_mint (req_body req)) = None
           \<or> PublicKey_new e (body_userPubkey (req_body req)) = None
           \<or> PublicKey_new e (body_stakePoolKey (req_body req)) = None"
  shows "handler e req =
           \<lparr>sent = (if req_method req \<noteq> ''POST'' then [onlyPostResponse] else []),
            executed = None, outcome = Threw (Raised ''PublicKey'')\<rparr>"
  using assms by (auto simp add: handler_def Let_def split: option.splits)

lemma handler_try:
  assumes "PublicKey_new e (body_mint (req_body req)) = Some mint"
    and "PublicKey_new e (body_userPubkey (req_body req)) = Some userPubkey"
    and "PublicKey_new e (body_stakePoolKey (req_body req)) = Some stakePoolKey"
    and "Connection_new e"
  shows "handler e req =
           \<lparr>sent = (if req_method req \<noteq> ''POST'' then [onlyPostResponse] else [])
                    @ [case fst (tryBlock e mint userPubkey stakePoolKey) of
                         Inr resp \<Rightarrow> resp | Inl err \<Rightarrow> errorResponse],
            executed = snd (tryBlock e mint userPubkey stakePoolKey),
            outcome = Returned\<rparr>"
  using assms by (simp add: handler_def Let_def split: prod.splits sum.splits)

lemma tryBlock_no_distributor:
  assumes "findRewardDistributorId e stakePoolKey = Some rdId"
    and "getRewardDistributor e rdId = None"
  shows "\<exists>err. tryBlock e mint userPubkey stakePoolKey = (Inl err, None)"
  using assms by (simp add: tryBlock_def split: option.splits)

lemma tryBlock_reward_entry:
  assumes "Keypair_fromSecretKey e = Some wallet"
    and "findRewardDistributorId e stakePoolKey = Some rdId"
    and "getRewardDistributor e rdId = Some rd"
    and "computeExpectedYield e mint = Inr y"
    and "findStakeEntryIdFromMint e userPubkey stakePoolKey mint = Some sid"
    and "findRewardEntryId e (rd_pubkey rd) sid = Some rid"
  shows "tryBlock e mint userPubkey stakePoolKey =
     (case getRewardEntry e rid of
        None \<Rightarrow>
          updateAndExecute e stakePoolKey rd sid y (y * 10 ^ multiplierDecimals rd)
            [InitRewardEntry sid (rd_pubkey rd) rid]
      | Some red \<Rightarrow>
          (case BN_toNumber (multiplier red) of
             Inl err \<Rightarrow> (Inl err, None)
           | Inr n \<Rightarrow>
               if (of_int n :: rat) / 10 ^ multiplierDecimals rd
                    = of_int (y * 10 ^ multiplierDecimals rd)
               then (Inr (ignoredResponse y), None)
               else updateAndExecute e stakePoolKey rd sid y (y * 10 ^ multiplierDecimals rd) []))"
  unfolding tryBlock_def Let_def
  by (simp only: assms option.case sum.case append_Nil)


lemma handler_reward_entry:
  assumes "PublicKey_new e (body_mint (req_body req)) = Some mint"
    and "PublicKey_new e (body_userPubkey (req_body req)) = Some userPubkey"
    and "PublicKey_new e (body_stakePoolKey (req_body req)) = Some stakePoolKey"
    and "Connection_new e"
    and "Keypair_fromSecretKey e = Some wallet"
    and "findRewardDistributorId e stakePoolKey = Some rdId"
    and "getRewardDistributor e rdId = Some rd"
    and "computeExpectedYield e mint = Inr y"
    and "findStakeEntryIdFromMint e userPubkey stakePoolKey mint = Some sid"
    and "findRewardEntryId e (rd_pubkey rd) sid = Some rid"
    and "tb = (case getRewardEntry e rid of
        None \<Rightarrow>
          updateAndExecute e stakePoolKey rd sid y (y * 10 ^ multiplierDecimals rd)
            [InitRewardEntry sid (rd_pubkey rd) rid]
      | Some red \<Rightarrow>
          (case BN_toNumber (multiplier red) of
             Inl err \<Rightarrow> (Inl err, None)
           | Inr n \<Rightarrow>
               if (of_int n :: rat) / 10 ^ multiplierDecimals rd
                    = of_int (y * 10 ^ multiplierDecimals rd)
               then (Inr (ignoredResponse y), None)
               else updateAndExecute e stakePoolKey rd sid y (y * 10 ^ multiplierDecimals rd) []))"
  shows "handler e req =
           \<lparr>sent = (if req_method req \<noteq> ''POST'' then [onlyPostResponse] else [])
                    @ [case fst tb of Inr resp \<Rightarrow> resp | Inl err \<Rightarrow> errorResponse],
            executed = snd tb, outcome = Returned\<rparr>"
  unfolding handler_try [OF assms(1-4)] tryBlock_reward_entry [OF assms(5-10)] assms(11)
  by (rule refl)

lemma updateAndExecute_executed:
  "snd (updateAndExecute e pool rd sid y m tx) =
     (if \<bar>m\<bar> < 2 ^ 53 then Some (tx @ [UpdateRewardEntry pool (rd_pubkey rd) sid m]) else None)"
  by (simp add: updateAndExecute_def BN_new_def withUpdateRewardEntry_def Let_def)

text \<open>
  C2, as amended. When the handler reaches an existing reward entry whose stored
  multiplier is below \<open>2^53\<close> and, divided by \<open>10 ^ multiplierDecimals\<close>, equals the
  expected multiplier \<open>yield * 10 ^ multiplierDecimals\<close>, no transaction is handed to
  \<open>executeTransaction\<close>; and, the request being a POST, the handler sends status 200 with
  type "ignored" and the computed yield, and returns.
\<close>

theorem handler_ignores_when_equal:
  assumes "PublicKey_new e (body_mint (req_body req)) = Some mint"
    and "PublicKey_new e (body_userPubkey (req_body req)) = Some userPubkey"
    and "PublicKey_new e (body_stakePoolKey (req_body req)) = Some stakePoolKey"
    and "Connection_new e"
    and "Keypair_fromSecretKey e = Some wallet"
    and "findRewardDistributorId e stakePoolKey = Some rdId"
    and "getRewardDistributor e rdId = Some rd"
    and "computeExpectedYield e mint = Inr y"
    and "findStakeEntryIdFromMint e userPubkey stakePoolKey mint = Some sid"
    and "findRewardEntryId e (rd_pubkey rd) sid = Some rid"
    and entry: "getRewardEntry e rid = Some red"
    and safe: "\<bar>multiplier red\<bar> < 2 ^ 53"
    and same: "(of_int (multiplier red) :: rat) / 10 ^ multiplierDecimals rd
                 = of_int y * 10 ^ multiplierDecimals rd"
  shows "executed (handler e req) = None
         \<and> (req_method req = ''POST'' \<longrightarrow>
              sent (handler e req) = [ignoredResponse y]
              \<and> outcome (handler e req) = Returned)
         \<and> status (ignoredResponse y) = 200
         \<and> rtype (ignoredResponse y) = Some ''ignored''
         \<and> yieldRate (ignoredResponse y) = Some y"
proof -
  have same': "(of_int (multiplier red) :: rat) / 10 ^ multiplierDecimals rd
                 = of_int (y * 10 ^ multiplierDecimals rd)"
    using same by simp
  have h: "handler e req =
           \<lparr>sent = (if req_method req \<noteq> ''POST'' then [onlyPostResponse] else [])
                    @ [ignoredResponse y],
            executed = None, outcome = Returned\<rparr>"
    unfolding handler_reward_entry [OF assms(1-10) refl] entry
    using safe same' by (simp add: BN_toNumber_def)
  show ?thesis
    unfolding h by (simp add: ignoredResponse_def)
qed


text \<open>
  C6. When the handler finds no reward entry, the transaction it hands to
  \<open>executeTransaction\<close> is the initialisation instruction of that entry followed by the
  update instruction (nothing is handed over only if the expected multiplier fails the
  53-bit guard of bn.js).
\<close>

theorem handler_inits_missing_entry:
  assumes "PublicKey_new e (body_mint (req_body req)) = Some mint"
    and "PublicKey_new e (body_userPubkey (req_body req)) = Some userPubkey"
    and "PublicKey_new e (body_stakePoolKey (req_body req)) = Some stakePoolKey"
    and "Connection_new e"
    and "Keypair_fromSecretKey e = Some wallet"
    and "findRewardDistributorId e stakePoolKey = Some rdId"
    and "getRewardDistributor e rdId = Some rd"
    and "computeExpectedYield e mint = Inr y"
    and "findStakeEntryIdFromMint e userPubkey stakePoolKey mint = Some sid"
    and "findRewardEntryId e (rd_pubkey rd) sid = Some rid"
    and absent: "getRewardEntry e rid = None"
  shows "executed (handler e req) =
           (if \<bar>y * 10 ^ multiplierDecimals rd\<bar> < 2 ^ 53
            then Some [InitRewardEntry sid (rd_pubkey rd) rid,
                       UpdateRewardEntry stakePoolKey (rd_pubkey rd) sid
                         (y * 10 ^ multiplierDecimals rd)]
            else None)"
  unfolding handler_reward_entry [OF assms(1-10) refl] absent
  by (simp add: updateAndExecute_executed)

text \<open>
  C8. When the reward distributor of the pool is absent, nothing is handed to
  \<open>executeTransaction\<close>, and the handler sends the generic failure response, status 500
  with type "error", and returns. (An empty \<open>Transaction\<close> object exists at that point,
  line 60; no instruction is ever added to it.)
\<close>

theorem handler_distributor_absent:
  assumes "PublicKey_new e (body_mint (req_body req)) = Some mint"
    and "PublicKey_new e (body_userPubkey (req_body req)) = Some userPubkey"
    and "PublicKey_new e (body_stakePoolKey (req_body req)) = Some stakePoolKey"
    and "Connection_new e"
    and "findRewardDistributorId e stakePoolKey = Some rdId"
    and "getRewardDistributor e rdId = None"
  shows "executed (handler e req) = None
         \<and> sent (handler e req) =
             (if req_method req \<noteq> ''POST'' then [onlyPostResponse] else [])
             @ [errorResponse]
         \<and> status errorResponse = 500
         \<and> rtype errorResponse = Some ''error''
         \<and> outcome (handler e req) = Returned"
proof -
  obtain err where t: "tryBlock e mint userPubkey stakePoolKey = (Inl err, None)"
    using tryBlock_no_distributor [OF assms(5,6)] by blast
  show ?thesis
    unfolding handler_try [OF assms(1-4)] t
    by (simp add: errorResponse_def)
qed



subsection \<open>Runs in the sample world\<close>

text \<open>
  Two decimals, yield 15, stored multiplier 150000: 150000 / 100 = 1500 = 15 * 100.
\<close>

theorem handler_ignores_when_equal_witness:
  "executed (handler (sampleEnv (Some sampleMetadata) 2 (Some 150000))
      (sampleRequest ''POST'' (Some mintAddress))) = None
   \<and> sent (handler (sampleEnv (Some sampleMetadata) 2 (Some 150000))
      (sampleRequest ''POST'' (Some mintAddress))) = [ignoredResponse 15]"
  using handler_ignores_when_equal
    [where e = "sampleEnv (Some sampleMetadata) 2 (Some 150000)"
       and req = "sampleRequest ''POST'' (Some mintAddress)"
       and mint = "PublicKey mintAddress" and userPubkey = "PublicKey userAddress"
       and stakePoolKey = "PublicKey poolAddress" and wallet = "PublicKey ''AdminWallet''"
       and rdId = "PublicKey ''RewardDistributorPDA''"
       and rd = "\<lparr>rd_pubkey = PublicKey ''RewardDistributorPDA'', multiplierDecimals = 2\<rparr>"
       and y = 15 and sid = "PublicKey ''StakeEntryPDA''"
       and rid = "PublicKey ''RewardEntryPDA''"
       and red = "\<lparr>re_pubkey = PublicKey ''RewardEntryPDA'', multiplier = 150000\<rparr>"]
  by (simp add: sample_defs)

text \<open>
  C2 as stated fails. Eight decimals, no metadata (yield 2, expected multiplier
  \<open>2 * 10^8\<close>), stored multiplier \<open>2 * 10^16\<close>: the stored multiplier divided by \<open>10^8\<close>
  equals the expected one, but \<open>toNumber\<close> raises at line 101 on a value of more than 53
  bits, and the handler answers with the 500 response.
\<close>

theorem equal_but_above_53_bits:
  "computeExpectedYield (sampleEnv None 8 (Some 20000000000000000)) (PublicKey mintAddress)
     = Inr 2
   \<and> getRewardEntry (sampleEnv None 8 (Some 20000000000000000)) (PublicKey ''RewardEntryPDA'')
       = Some \<lparr>re_pubkey = PublicKey ''RewardEntryPDA'', multiplier = 20000000000000000\<rparr>
   \<and> (of_int 20000000000000000 :: rat) / 10 ^ 8 = of_int 2 * 10 ^ 8
   \<and> sent (handler (sampleEnv None 8 (Some 20000000000000000))
        (sampleRequest ''POST'' (Some mintAddress))) = [errorResponse]
   \<and> executed (handler (sampleEnv None 8 (Some 20000000000000000))
        (sampleRequest ''POST'' (Some mintAddress))) = None"
  by (simp add: handler_def tryBlock_def BN_toNumber_def sample_defs)


text \<open>
  The comparison of line 106 is between the stored multiplier divided by
  \<open>10 ^ multiplierDecimals\<close> and the yield multiplied by it. One decimal, no metadata
  (yield 2, expected multiplier 20), stored multiplier 200: the handler compares
  200 / 10 = 20 with 20 and answers "ignored"; stored multiplier 20, which is what the
  handler itself writes: it compares 2 with 20 and writes 20 again.
\<close>

lemma stored_differs_but_ignored:
  "computeExpectedYield (sampleEnv None 1 (Some 200)) (PublicKey mintAddress) = Inr 2
   \<and> getRewardEntry (sampleEnv None 1 (Some 200)) (PublicKey ''RewardEntryPDA'')
       = Some \<lparr>re_pubkey = PublicKey ''RewardEntryPDA'', multiplier = 200\<rparr>
   \<and> (200 :: int) \<noteq> 2 * 10 ^ 1
   \<and> executed (handler (sampleEnv None 1 (Some 200))
        (sampleRequest ''POST'' (Some mintAddress))) = None
   \<and> sent (handler (sampleEnv None 1 (Some 200))
        (sampleRequest ''POST'' (Some mintAddress))) = [ignoredResponse 2]"
  by (simp add: handler_def tryBlock_def BN_toNumber_def sample_defs)

lemma own_update_written_again:
  "executed (handler (sampleEnv None 1 (Some 20))
      (sampleRequest ''POST'' (Some mintAddress))) =
     Some [UpdateRewardEntry (PublicKey poolAddress) (PublicKey ''RewardDistributorPDA'')
             (PublicKey ''StakeEntryPDA'') 20]"
  by (simp add: handler_def tryBlock_def updateAndExecute_def BN_toNumber_def BN_new_def
      withUpdateRewardEntry_def sample_defs)


text \<open>No reward entry, no decimals, yield 15.\<close>

theorem handler_inits_missing_entry_witness:
  "executed (handler (sampleEnv (Some sampleMetadata) 0 None)
      (sampleRequest ''POST'' (Some mintAddress))) =
     Some [InitRewardEntry (PublicKey ''StakeEntryPDA'') (PublicKey ''RewardDistributorPDA'')
             (PublicKey ''RewardEntryPDA''),
           UpdateRewardEntry (PublicKey poolAddress) (PublicKey ''RewardDistributorPDA'')
             (PublicKey ''StakeEntryPDA'') 15]"
  using handler_inits_missing_entry
    [where e = "sampleEnv (Some sampleMetadata) 0 None"
       and req = "sampleRequest ''POST'' (Some mintAddress)"
       and mint = "PublicKey mintAddress" and userPubkey = "PublicKey userAddress"
       and stakePoolKey = "PublicKey poolAddress" and wallet = "PublicKey ''AdminWallet''"
       and rdId = "PublicKey ''RewardDistributorPDA''"
       and rd = "\<lparr>rd_pubkey = PublicKey ''RewardDistributorPDA'', multiplierDecimals = 0\<rparr>"
       and y = 15 and sid = "PublicKey ''StakeEntryPDA''"
       and rid = "PublicKey ''RewardEntryPDA''"]
  by (simp add: sample_defs)

text \<open>The sample world without any reward distributor.\<close>

theorem handler_distributor_absent_witness:
  "executed (handler ((sampleEnv None 0 None)\<lparr>getRewardDistributor := (\<lambda>i. None)\<rparr>)
      (sampleRequest ''POST'' (Some mintAddress))) = None
   \<and> sent (handler ((sampleEnv None 0 None)\<lparr>getRewardDistributor := (\<lambda>i. None)\<rparr>)
      (sampleRequest ''POST'' (Some mintAddress))) = [errorResponse]
   \<and> outcome (handler ((sampleEnv None 0 None)\<lparr>getRewardDistributor := (\<lambda>i. None)\<rparr>)
      (sampleRequest ''POST'' (Some mintAddress))) = Returned"
  using handler_distributor_absent
    [where e = "(sampleEnv None 0 None)\<lparr>getRewardDistributor := (\<lambda>i. None)\<rparr>"
       and req = "sampleRequest ''POST'' (Some mintAddress)"
       and mint = "PublicKey mintAddress" and userPubkey = "PublicKey userAddress"
       and stakePoolKey = "PublicKey poolAddress"
       and rdId = "PublicKey ''RewardDistributorPDA''"]
  by (simp add: sample_defs)

text \<open>
  C4. A request that is not a POST is answered with status 405, but the handler does not
  stop there. On a PUT with three valid addresses and no reward entry yet, the 405 is
  followed by the whole processing: the transaction (initialisation and update) is
  handed to \<open>executeTransaction\<close> and a second response, the success one, is sent.
\<close>

theorem non_post_request_is_processed:
  "sent (handler (sampleEnv (Some sampleMetadata) 0 None)
      (sampleRequest ''PUT'' (Some mintAddress))) = [onlyPostResponse, okResponse 15]
   \<and> status onlyPostResponse = 405
   \<and> executed (handler (sampleEnv (Some sampleMetadata) 0 None)
      (sampleRequest ''PUT'' (Some mintAddress))) =
     Some [InitRewardEntry (PublicKey ''StakeEntryPDA'') (PublicKey ''RewardDistributorPDA'')
             (PublicKey ''RewardEntryPDA''),
           UpdateRewardEntry (PublicKey poolAddress) (PublicKey ''RewardDistributorPDA'')
             (PublicKey ''StakeEntryPDA'') 15]"
  by (simp add: handler_def tryBlock_def updateAndExecute_def BN_new_def
      withUpdateRewardEntry_def onlyPostResponse_def sample_defs)

lemma onlyPost_not_error: "onlyPostResponse \<noteq> errorResponse"
  by (simp add: onlyPostResponse_def errorResponse_def)

text \<open>
  C9, as amended. If one of \<open>mint\<close>, \<open>userPubkey\<close>, \<open>stakePoolKey\<close> does not parse, the
  handler fails with the parse error, and the error leaves the handler: the addresses are
  parsed before the \<open>try\<close>, so the \<open>catch\<close> does not run, the 500 response is not sent
  and nothing is executed. An exception raised inside the \<open>try\<close> block is caught, and
  answered with the one generic 500 response.
\<close>

theorem parse_error_leaves_handler:
  "(PublicKey_new e (body_mint (req_body req)) = None
      \<or> PublicKey_new e (body_userPubkey (req_body req)) = None
      \<or> PublicKey_new e (body_stakePoolKey (req_body req)) = None
    \<longrightarrow> outcome (handler e req) = Threw (Raised ''PublicKey'')
        \<and> executed (handler e req) = None
        \<and> sent (handler e req) = (if req_method req \<noteq> ''POST'' then [onlyPostResponse] else [])
        \<and> errorResponse \<notin> set (sent (handler e req)))
   \<and> (PublicKey_new e (body_mint (req_body req)) = Some mint
      \<and> PublicKey_new e (body_userPubkey (req_body req)) = Some userPubkey
      \<and> PublicKey_new e (body_stakePoolKey (req_body req)) = Some stakePoolKey
      \<and> Connection_new e
      \<and> fst (tryBlock e mint userPubkey stakePoolKey) = Inl err
    \<longrightarrow> outcome (handler e req) = Returned
        \<and> sent (handler e req) =
            (if req_method req \<noteq> ''POST'' then [onlyPostResponse] else []) @ [errorResponse])"
proof (intro conjI impI)
  assume a: "PublicKey_new e (body_mint (req_body req)) = None
      \<or> PublicKey_new e (body_userPubkey (req_body req)) = None
      \<or> PublicKey_new e (body_stakePoolKey (req_body req)) = None"
  note h = handler_parse_fails [OF a]
  show "outcome (handler e req) = Threw (Raised ''PublicKey'')"
    unfolding h by simp
  show "executed (handler e req) = None"
    unfolding h by simp
  show "sent (handler e req) = (if req_method req \<noteq> ''POST'' then [onlyPostResponse] else [])"
    unfolding h by simp
  show "errorResponse \<notin> set (sent (handler e req))"
    unfolding h using onlyPost_not_error by auto
next
  assume b: "PublicKey_new e (body_mint (req_body req)) = Some mint
      \<and> PublicKey_new e (body_userPubkey (req_body req)) = Some userPubkey
      \<and> PublicKey_new e (body_stakePoolKey (req_body req)) = Some stakePoolKey
      \<and> Connection_new e
      \<and> fst (tryBlock e mint userPubkey stakePoolKey) = Inl err"
  then have h: "handler e req =
           \<lparr>sent = (if req_method req \<noteq> ''POST'' then [onlyPostResponse] else [])
                    @ [case fst (tryBlock e mint userPubkey stakePoolKey) of
                         Inr resp \<Rightarrow> resp | Inl err \<Rightarrow> errorResponse],
            executed = snd (tryBlock e mint userPubkey stakePoolKey),
            outcome = Returned\<rparr>"
    using handler_try by blast
  show "outcome (handler e req) = Returned"
    unfolding h by simp
  show "sent (handler e req) =
            (if req_method req \<noteq> ''POST'' then [onlyPostResponse] else []) @ [errorResponse]"
    unfolding h using b by simp
qed

text \<open>
  C9 as stated fails: a POST whose \<open>mint\<close> is not an address ends in the exception, and
  the handler has sent nothing.
\<close>

theorem malformed_mint_not_answered:
  "PublicKey_new (sampleEnv None 0 None) (Some ''not an address'') = None
   \<and> outcome (handler (sampleEnv None 0 None) (sampleRequest ''POST'' (Some ''not an address'')))
       = Threw (Raised ''PublicKey'')
   \<and> sent (handler (sampleEnv None 0 None) (sampleRequest ''POST'' (Some ''not an address'')))
       = []"
  by (simp add: handler_def sample_defs)

text \<open>
  A POST without \<open>mint\<close>; and a POST in a world where the admin key cannot be loaded
  (an exception inside the \<open>try\<close>).
\<close>

theorem parse_error_leaves_handler_witness:
  "outcome (handler (sampleEnv None 0 None) (sampleRequest ''POST'' None))
       = Threw (Raised ''PublicKey'')
   \<and> sent (handler (sampleEnv None 0 None) (sampleRequest ''POST'' None)) = []
   \<and> sent (handler ((sampleEnv None 0 None)\<lparr>Keypair_fromSecretKey := None\<rparr>)
        (sampleRequest ''POST'' (Some mintAddress))) = [errorResponse]"
proof -
  have a: "outcome (handler (sampleEnv None 0 None) (sampleRequest ''POST'' None))
       = Threw (Raised ''PublicKey'')
     \<and> sent (handler (sampleEnv None 0 None) (sampleRequest ''POST'' None)) = []"
    using parse_error_leaves_handler
      [where e = "sampleEnv None 0 None" and req = "sampleRequest ''POST'' None"]
    by (simp add: sample_defs)
  have b: "sent (handler ((sampleEnv None 0 None)\<lparr>Keypair_fromSecretKey := None\<rparr>)
        (sampleRequest ''POST'' (Some mintAddress))) = [errorResponse]"
    using parse_error_leaves_handler
      [where e = "(sampleEnv None 0 None)\<lparr>Keypair_fromSecretKey := None\<rparr>"
         and req = "sampleRequest ''POST'' (Some mintAddress)"
         and mint = "PublicKey mintAddress" and userPubkey = "PublicKey userAddress"
         and stakePoolKey = "PublicKey poolAddress"
         and err = "Raised ''Keypair.fromSecretKey''"]
    by (simp add: tryBlock_def sample_defs)
  show ?thesis using a b by simp
qed


end
